theory Spec2Isabelle
  imports Main "HOL-Library.Sublist"
begin

section \<open>The splitter of split.h\<close>

subsection \<open>Sizes, searches and substrings of the C++ library\<close>

text \<open>
  A source string is a \<^verbatim>\<open>std::basic_string_view\<close>, modelled by the list of its
  characters. Positions and counts are \<^verbatim>\<open>size_t\<close> values, modelled by natural numbers
  with the wrap-around at \<open>2 ^ 64\<close> written out; \<^verbatim>\<open>npos\<close> is the largest of them.
  The length of a string view is below \<^verbatim>\<open>npos\<close>; the theorems assume it of the
  source.
\<close>

definition npos :: nat where
  "npos = 2 ^ 64 - 1"

definition size_add :: "nat \<Rightarrow> nat \<Rightarrow> nat" where
  "size_add x y = (x + y) mod 2 ^ 64"

definition size_sub :: "nat \<Rightarrow> nat \<Rightarrow> nat" where
  "size_sub x y = (x + 2 ^ 64 - y) mod 2 ^ 64"

text \<open>
  What can go wrong in the library calls of the splitter: the substring constructor
  throws \<^verbatim>\<open>std::out_of_range\<close> for a start position behind the end of the string, and
  an iterator moved behind the end of the source has no defined behaviour.
\<close>

datatype error = Out_of_range | Past_the_end

text \<open>
  \<^verbatim>\<open>std::basic_string(str, pos, n, alloc)\<close> for a string view \<^verbatim>\<open>str\<close>: the characters
  of \<^verbatim>\<open>str.substr(pos, n)\<close>, that is at most \<^verbatim>\<open>n\<close> characters from position
  \<^verbatim>\<open>pos\<close> on, and \<^verbatim>\<open>std::out_of_range\<close> when \<^verbatim>\<open>pos > str.size()\<close>.
\<close>

definition substring :: "string \<Rightarrow> nat \<Rightarrow> nat \<Rightarrow> error + string" where
  "substring str pos n =
     (if pos > length str then Inl Out_of_range else Inr (take n (drop pos str)))"

text \<open>
  \<^verbatim>\<open>str.find(c, pos)\<close> for a character: the lowest position from \<^verbatim>\<open>pos\<close> on that
  holds \<^verbatim>\<open>c\<close>, or \<^verbatim>\<open>npos\<close>.
\<close>

definition sv_find_char :: "string \<Rightarrow> char \<Rightarrow> nat \<Rightarrow> nat" where
  "sv_find_char str c pos =
     (let k = length (takeWhile (\<lambda>x. x \<noteq> c) (drop pos str))
      in if pos + k < length str then pos + k else npos)"

text \<open>
  The offset of the first occurrence of \<open>sep\<close> in \<open>s\<close>; the empty string occurs at
  offset \<open>0\<close> of every string.
\<close>

fun first_occurrence :: "string \<Rightarrow> string \<Rightarrow> nat option" where
  "first_occurrence sep [] = (if sep = [] then Some 0 else None)"
| "first_occurrence sep (x # xs) =
     (if prefix sep (x # xs) then Some 0
      else map_option Suc (first_occurrence sep xs))"

text \<open>
  \<^verbatim>\<open>str.find(sep, pos)\<close> for a string view \<^verbatim>\<open>sep\<close>: the lowest position \<^verbatim>\<open>xpos\<close>
  with \<^verbatim>\<open>pos <= xpos\<close> and \<^verbatim>\<open>xpos + sep.size() <= str.size()\<close> at which \<^verbatim>\<open>sep\<close>
  stands in \<^verbatim>\<open>str\<close>, or \<^verbatim>\<open>npos\<close>.
\<close>

definition sv_find :: "string \<Rightarrow> string \<Rightarrow> nat \<Rightarrow> nat" where
  "sv_find str sep pos =
     (if pos > length str then npos
      else case first_occurrence sep (drop pos str) of
             None \<Rightarrow> npos
           | Some k \<Rightarrow> pos + k)"

subsection \<open>Splitting at a character\<close>

text \<open>
  The loop of the bounded mode (\<^verbatim>\<open>max_fields\<close> is the already decremented limit):
  \<^verbatim>\<open>
  do {
    b=(result.size()>=max_fields? str.npos: str.find(sep, a));
    result.emplace_back(str, a, b-a, alloc_ch);
    a=b+1;
  } while(b!=str.npos && a<=str_len);
  \<close>
  A loop is a partial function into \<open>option\<close>: \<open>None\<close> says that it does not return,
  \<open>Some (Inl e)\<close> that it stops with the error \<open>e\<close>, \<open>Some (Inr result)\<close> that it
  returns the fields \<open>result\<close>.
\<close>

partial_function (option) split_char_bounded ::
  "string \<Rightarrow> char \<Rightarrow> nat \<Rightarrow> nat \<Rightarrow> string list \<Rightarrow> (error + string list) option" where
  "split_char_bounded str sep max_fields a result =
     (let b = (if length result \<ge> max_fields then npos else sv_find_char str sep a) in
      case substring str a (size_sub b a) of
        Inl e \<Rightarrow> Some (Inl e)
      | Inr field \<Rightarrow>
          (let result' = result @ [field];
               a' = size_add b 1
           in if b \<noteq> npos \<and> a' \<le> length str
              then split_char_bounded str sep max_fields a' result'
              else Some (Inr result')))"

text \<open>
  The body of the loop of the unbounded mode, shared by the overloads for a character
  and for a literal separator:
  \<^verbatim>\<open>
  if(b==a)
    ++trailing_empty;
  else {
    for(; trailing_empty; --trailing_empty)
      result.emplace_back();
    result.emplace_back(str, a, b-a, alloc_ch);
  }
  \<close>
  It returns the new values of \<^verbatim>\<open>trailing_empty\<close> and \<^verbatim>\<open>result\<close>.
\<close>

definition count_or_emit ::
  "string \<Rightarrow> nat \<Rightarrow> nat \<Rightarrow> nat \<Rightarrow> string list \<Rightarrow> error + nat \<times> string list" where
  "count_or_emit str a b trailing_empty result =
     (if b = a then Inr (size_add trailing_empty 1, result)
      else case substring str a (size_sub b a) of
             Inl e \<Rightarrow> Inl e
           | Inr field \<Rightarrow> Inr (0, result @ replicate trailing_empty [] @ [field]))"

text \<open>
  The loop of the unbounded mode:
  \<^verbatim>\<open>
  do {
    b=str.find(sep, a);
    ... (the body above)
    a=b+1;
  } while(b!=str.npos && a<str_len);
  \<close>
\<close>

partial_function (option) split_char_unbounded ::
  "string \<Rightarrow> char \<Rightarrow> nat \<Rightarrow> nat \<Rightarrow> string list \<Rightarrow> (error + string list) option" where
  "split_char_unbounded str sep a trailing_empty result =
     (let b = sv_find_char str sep a in
      case count_or_emit str a b trailing_empty result of
        Inl e \<Rightarrow> Some (Inl e)
      | Inr (trailing_empty', result') \<Rightarrow>
          (let a' = size_add b 1
           in if b \<noteq> npos \<and> a' < length str
              then split_char_unbounded str sep a' trailing_empty' result'
              else Some (Inr result')))"

text \<open>
  \<^verbatim>\<open>split(str, sep, max_fields)\<close> for a character \<^verbatim>\<open>sep\<close>. The test
  \<^verbatim>\<open>if(max_fields--)\<close> reads the limit and then decrements it.
\<close>

definition split_char :: "string \<Rightarrow> char \<Rightarrow> nat \<Rightarrow> (error + string list) option" where
  "split_char str sep max_fields =
     (if length str \<noteq> 0 then
        (if max_fields \<noteq> 0 then split_char_bounded str sep (size_sub max_fields 1) 0 []
         else split_char_unbounded str sep 0 0 [])
      else Some (Inr []))"

subsection \<open>Splitting at a literal separator\<close>

text \<open>
  The loop of the bounded mode, with \<^verbatim>\<open>sep_len=sep.length()\<close> and
  \<^verbatim>\<open>empty_sep=!sep_len\<close>:
  \<^verbatim>\<open>
  do {
    b=(result.size()>=max_fields? str.npos: str.find(sep, a)+empty_sep);
    result.emplace_back(str, a, b-a, alloc_ch);
    a=b+sep_len;
  } while(b!=str.npos && a<=str_len);
  \<close>
\<close>

partial_function (option) split_lit_bounded ::
  "string \<Rightarrow> string \<Rightarrow> nat \<Rightarrow> nat \<Rightarrow> string list \<Rightarrow> (error + string list) option" where
  "split_lit_bounded str sep max_fields a result =
     (let sep_len = length sep;
          empty_sep = (if sep_len = 0 then 1 else 0);
          b = (if length result \<ge> max_fields then npos
               else size_add (sv_find str sep a) empty_sep)
      in case substring str a (size_sub b a) of
           Inl e \<Rightarrow> Some (Inl e)
         | Inr field \<Rightarrow>
             (let result' = result @ [field];
                  a' = size_add b sep_len
              in if b \<noteq> npos \<and> a' \<le> length str
                 then split_lit_bounded str sep max_fields a' result'
                 else Some (Inr result')))"

text \<open>
  The loop of the unbounded mode:
  \<^verbatim>\<open>
  do {
    b=str.find(sep, a)+empty_sep;
    ... (the body above)
    a=b+sep_len;
  } while(b!=str.npos && a<str_len);
  \<close>
\<close>

partial_function (option) split_lit_unbounded ::
  "string \<Rightarrow> string \<Rightarrow> nat \<Rightarrow> nat \<Rightarrow> string list \<Rightarrow> (error + string list) option" where
  "split_lit_unbounded str sep a trailing_empty result =
     (let sep_len = length sep;
          empty_sep = (if sep_len = 0 then 1 else 0);
          b = size_add (sv_find str sep a) empty_sep
      in case count_or_emit str a b trailing_empty result of
           Inl e \<Rightarrow> Some (Inl e)
         | Inr (trailing_empty', result') \<Rightarrow>
             (let a' = size_add b sep_len
              in if b \<noteq> npos \<and> a' < length str
                 then split_lit_unbounded str sep a' trailing_empty' result'
                 else Some (Inr result')))"

definition split_lit :: "string \<Rightarrow> string \<Rightarrow> nat \<Rightarrow> (error + string list) option" where
  "split_lit str sep max_fields =
     (if length str \<noteq> 0 then
        (if max_fields \<noteq> 0 then split_lit_bounded str sep (size_sub max_fields 1) 0 []
         else split_lit_unbounded str sep 0 0 [])
      else Some (Inr []))"

subsection \<open>Splitting at the matches of a pattern\<close>

text \<open>
  The compiled pattern \<^verbatim>\<open>sep_re\<close> is given by what
  \<^verbatim>\<open>regex_search(a, str.end(), sep, sep_re)\<close> finds in the characters from \<^verbatim>\<open>a\<close>
  to the end of the source: \<open>None\<close> when there is no match, otherwise
  \<^verbatim>\<open>sep.position(0)\<close> and \<^verbatim>\<open>sep.length(0)\<close> of the match. The iterators \<^verbatim>\<open>a\<close> and
  \<^verbatim>\<open>b\<close> are offsets into the source, \<^verbatim>\<open>str.cend()\<close> is its length, and an iterator
  behind \<^verbatim>\<open>str.cend()\<close> is the error \<open>Past_the_end\<close>.
\<close>

type_synonym pattern = "string \<Rightarrow> (nat \<times> nat) option"

text \<open>
  The search step that both modes share:
  \<^verbatim>\<open>
  if(regex_search(a, str.end(), sep, sep_re)){
    sep_len=sep.length(0);
    b=a+sep.position(0)+!sep_len;
  }
  else
    b=str.cend();
  \<close>
  It returns \<^verbatim>\<open>b\<close> and \<^verbatim>\<open>sep_len\<close> (which is \<open>0\<close> before the search).
\<close>

definition next_cut :: "pattern \<Rightarrow> string \<Rightarrow> nat \<Rightarrow> nat \<times> nat" where
  "next_cut sep_re str a =
     (case sep_re (drop a str) of
        Some (position, len) \<Rightarrow> (a + position + (if len = 0 then 1 else 0), len)
      | None \<Rightarrow> (length str, 0))"

text \<open>
  The loop of the bounded mode and the statement after it:
  \<^verbatim>\<open>
  do {
    size_t sep_len=0;
    if(result.size()<max_fields && regex_search(...)){ ... } else b=str.cend();
    result.emplace_back(a, b, alloc_ch);
    a=b+sep_len;
  } while(a!=str.cend());
  if(b!=str.cend() && result.size()<max_fields)
    result.emplace_back(alloc_ch);
  \<close>
\<close>

partial_function (option) split_re_bounded ::
  "pattern \<Rightarrow> string \<Rightarrow> nat \<Rightarrow> nat \<Rightarrow> string list \<Rightarrow> (error + string list) option" where
  "split_re_bounded sep_re str max_fields a result =
     (case (if length result < max_fields then next_cut sep_re str a else (length str, 0)) of
        (b, sep_len) \<Rightarrow>
          if b > length str \<or> b + sep_len > length str then Some (Inl Past_the_end)
          else
            (let result' = result @ [take (b - a) (drop a str)];
                 a' = b + sep_len
             in if a' \<noteq> length str
                then split_re_bounded sep_re str max_fields a' result'
                else Some (Inr (if b \<noteq> length str \<and> length result' < max_fields
                                then result' @ [[]] else result'))))"

text \<open>
  The loop of the unbounded mode:
  \<^verbatim>\<open>
  do {
    auto b=a; size_t sep_len=0;
    if(regex_search(...)){ ... } else b=str.cend();
    if(b==a) ++trailing_empty;
    else { for(; trailing_empty; --trailing_empty) result.emplace_back();
           result.emplace_back(a, b, alloc_ch); }
    a=b+sep_len;
  } while(a!=str.cend());
  \<close>
\<close>

partial_function (option) split_re_unbounded ::
  "pattern \<Rightarrow> string \<Rightarrow> nat \<Rightarrow> nat \<Rightarrow> string list \<Rightarrow> (error + string list) option" where
  "split_re_unbounded sep_re str a trailing_empty result =
     (case next_cut sep_re str a of
        (b, sep_len) \<Rightarrow>
          if b > length str \<or> b + sep_len > length str then Some (Inl Past_the_end)
          else
            (let trailing_empty' = (if b = a then size_add trailing_empty 1 else 0);
                 result' = (if b = a then result
                            else result @ replicate trailing_empty []
                                   @ [take (b - a) (drop a str)]);
                 a' = b + sep_len
             in if a' \<noteq> length str
                then split_re_unbounded sep_re str a' trailing_empty' result'
                else Some (Inr result')))"

definition split_re :: "string \<Rightarrow> pattern \<Rightarrow> nat \<Rightarrow> (error + string list) option" where
  "split_re str sep_re max_fields =
     (if length str \<noteq> 0 then
        (if max_fields \<noteq> 0 then split_re_bounded sep_re str (size_sub max_fields 1) 0 []
         else split_re_unbounded sep_re str 0 0 [])
      else Some (Inr []))"

text \<open>
  Two patterns by what the search finds for them. The pattern that is a literal text
  without special characters, such as \<^verbatim>\<open>std::regex(",")\<close>, matches at the first
  occurrence of the text. The pattern \<^verbatim>\<open>std::regex("$")\<close> matches the empty span at the
  end of the searched characters and nowhere else.
\<close>

definition literal_pattern :: "string \<Rightarrow> pattern" where
  "literal_pattern lit s =
     (case first_occurrence lit s of None \<Rightarrow> None | Some k \<Rightarrow> Some (k, length lit))"

definition end_pattern :: pattern where
  "end_pattern s = Some (length s, 0)"

subsection \<open>The fields of a string\<close>

text \<open>
  The fields that the separator occurrences cut a string into, scanning from the left:
  a field ends at the first occurrence of the separator behind its start, the next one
  starts behind that occurrence, and the last field runs to the end. For the empty
  separator every character is a field of its own.
\<close>

function all_fields :: "string \<Rightarrow> string \<Rightarrow> string list" where
  "all_fields sep s =
     (if sep = [] then map (\<lambda>c. [c]) s
      else case first_occurrence sep s of
             None \<Rightarrow> [s]
           | Some k \<Rightarrow> take k s # all_fields sep (drop (k + length sep) s))"
  by pat_completeness auto
termination
proof (relation "measure (\<lambda>(sep, s). length s)")
  show "wf (measure (\<lambda>(sep :: string, s :: string). length s))"
    by simp
next
  fix sep s :: string and k :: nat
  assume "sep \<noteq> []" and "first_occurrence sep s = Some k"
  then have "s \<noteq> []"
    by (cases s) simp_all
  with \<open>sep \<noteq> []\<close> have "length (drop (k + length sep) s) < length s"
    by simp
  then show "((sep, drop (k + length sep) s), (sep, s)) \<in> measure (\<lambda>(sep, s). length s)"
    by simp
qed

declare all_fields.simps [simp del]

text \<open>Dropping the run of empty fields at the end of a field sequence.\<close>

fun drop_trailing_empty :: "string list \<Rightarrow> string list" where
  "drop_trailing_empty [] = []"
| "drop_trailing_empty (f # fs) =
     (if f = [] \<and> drop_trailing_empty fs = [] then [] else f # drop_trailing_empty fs)"

section \<open>The joiner of split.h\<close>

text \<open>
  \<^verbatim>\<open>basic_join(first, last, joiner, last_joiner, out_locale, alloc_ch)\<close> writes the
  elements of the iterator range to an output string stream. The range is modelled by
  the list of the elements from \<^verbatim>\<open>first\<close> up to \<^verbatim>\<open>last\<close>: an iterator is the
  list of the elements that are still ahead of it, \<^verbatim>\<open>it != last\<close> says that this list
  is not empty, \<^verbatim>\<open>*it\<close> is its head and \<^verbatim>\<open>++it\<close> its tail. The parameter \<open>text\<close>
  stands for what \<^verbatim>\<open>output << *first\<close> appends for an element (the element itself
  when it is a string); the joiners are given by the text that \<^verbatim>\<open>output << joiner\<close>
  appends. The locale and the allocator do not influence the characters written for
  strings and are left out.
\<close>

text \<open>
  The inner loop of \<^verbatim>\<open>basic_join\<close>:
  \<^verbatim>\<open>while(++second!=last) output << joiner << *first++;\<close>
  The state is the stream content and the two iterators; the loop returns the stream
  content and \<^verbatim>\<open>first\<close> as they are when the loop is left.
\<close>

function join_loop ::
  "('a \<Rightarrow> string) \<Rightarrow> string \<Rightarrow> string \<Rightarrow> 'a list \<Rightarrow> 'a list \<Rightarrow> string \<times> 'a list" where
  "join_loop text joiner output first second =
     (case tl second of
        [] \<Rightarrow> (output, first)
      | _ # _ \<Rightarrow>
          (case first of
             [] \<Rightarrow> (output, first)
           | x # first' \<Rightarrow> join_loop text joiner (output @ joiner @ text x) first' (tl second)))"
  by pat_completeness auto
termination
proof (relation "measure (\<lambda>(text, joiner, output, first, second). length second)")
  show "wf (measure (\<lambda>(text :: 'a \<Rightarrow> string, joiner :: string, output :: string,
                        first :: 'a list, second :: 'a list). length second))"
    by simp
next
  fix second :: "'a list" and y ys and t :: "'a \<Rightarrow> string" and joiner out :: string
    and x and first' first :: "'a list"
  assume "tl second = y # ys"
  then have "length (tl second) < length second"
    by (cases second) simp_all
  then show "((t, joiner, out @ joiner @ t x, first', tl second), (t, joiner, out, first, second))
             \<in> measure (\<lambda>(text, joiner, output, first, second). length second)"
    by simp
qed

declare join_loop.simps [simp del]

definition basic_join :: "('a \<Rightarrow> string) \<Rightarrow> 'a list \<Rightarrow> string \<Rightarrow> string \<Rightarrow> string" where
  "basic_join text xs joiner last_joiner =
     (case xs of
        [] \<Rightarrow> []
      | x # first \<Rightarrow>
          (case first of
             [] \<Rightarrow> text x
           | _ # _ \<Rightarrow>
               (case join_loop text joiner (text x) first first of
                  (output, []) \<Rightarrow> output
                | (output, y # _) \<Rightarrow> output @ last_joiner @ text y)))"

text \<open>
  The overloads \<^verbatim>\<open>join(cont, joiner, last_joiner)\<close> and \<^verbatim>\<open>join(cont, joiner)\<close> for
  a container of strings: both forward to \<^verbatim>\<open>basic_join\<close>, the second with the joiner
  in both places.
\<close>

definition join :: "string list \<Rightarrow> string \<Rightarrow> string \<Rightarrow> string" where
  "join cont joiner last_joiner = basic_join (\<lambda>s. s) cont joiner last_joiner"

definition join_same :: "string list \<Rightarrow> string \<Rightarrow> string" where
  "join_same cont joiner = basic_join (\<lambda>s. s) cont joiner joiner"


section \<open>Properties of the joiner\<close>




text \<open>
  C7 as the specification writes it: with the last joiner \<open>and\<close>, the examples are
  said to give \<open>x and y\<close> and \<open>x,y and z\<close>. The joiner writes the last joiner as
  it is given and adds no blanks around it, so the examples with two and three elements do
  not hold as written.
\<close>

theorem join_examples_as_written_fail:
  "\<not> (join [] '','' ''and'' = []
      \<and> join [''x''] '','' ''and'' = ''x''
      \<and> join [''x'', ''y''] '','' ''and'' = ''x and y''
      \<and> join [''x'', ''y'', ''z''] '','' ''and'' = ''x,y and z'')"
  by (simp add: join_def basic_join_def join_loop.simps)

text \<open>
  C7, amended: \<^verbatim>\<open>join([], ",", "and")\<close> is empty, \<^verbatim>\<open>join(["x"], ",", "and")\<close> is
  \<open>x\<close>, \<^verbatim>\<open>join(["x","y"], ",", "and")\<close> is \<open>xandy\<close> and
  \<^verbatim>\<open>join(["x","y","z"], ",", "and")\<close> is \<open>x,yandz\<close>; the texts \<open>x and y\<close> and
  \<open>x,y and z\<close> are the results for the last joiner \<open>and\<close> with a blank on each side.
\<close>

theorem join_examples:
  "join [] '','' ''and'' = []
   \<and> join [''x''] '','' ''and'' = ''x''
   \<and> join [''x'', ''y''] '','' ''and'' = ''xandy''
   \<and> join [''x'', ''y'', ''z''] '','' ''and'' = ''x,yandz''
   \<and> join [''x'', ''y''] '','' '' and '' = ''x and y''
   \<and> join [''x'', ''y'', ''z''] '','' '' and '' = ''x,y and z''"
  by (simp add: join_def basic_join_def join_loop.simps)

end
